theory Spec2Isabelle
  imports Complex_Main "HOL-Library.Multiset" "HOL-Library.Word"
begin

section \<open>The expression IR (expr.cpp)\<close>

text \<open>
  Index variables and tensor variables are handles to a shared content block; two handles
  are equal iff they point to the same block (\<^verbatim>\<open>a.content == b.content\<close>). A handle is
  modelled as the address of its block.
\<close>

type_synonym IndexVar = nat
type_synonym TensorVar = nat

text \<open>
  The literal of a \<^verbatim>\<open>FloatImmNode\<close> is a C++ double. The code only compares literals with
  \<^verbatim>\<open>!=\<close>, under which NaN differs from every value, itself included; the two zeros compare
  equal and are one value here.
\<close>

datatype double = NaN | PInf | NInf | Finite rat

fun double_ne :: "double \<Rightarrow> double \<Rightarrow> bool" where
  "double_ne NaN y = True"
| "double_ne x NaN = True"
| "double_ne x y = (x \<noteq> y)"

datatype UnaryOp = NegNode | SqrtNode

datatype BinaryOp = AddNode | SubNode | MulNode | DivNode

datatype ImmVal =
    IntImmNode "64 word"
  | FloatImmNode double
  | ComplexImmNode double double
  | UIntImmNode "64 word"

text \<open>
  The node classes: \<^verbatim>\<open>AccessNode\<close> (tensor variable and index variables), the unary nodes
  (\<^verbatim>\<open>UnaryExprNode\<close>: Neg, Sqrt), the binary nodes (\<^verbatim>\<open>BinaryExprNode\<close>: Add, Sub, Mul, Div)
  and the immediates (\<^verbatim>\<open>ImmExprNode\<close>). Operands of a node are defined expressions. An
  \<^verbatim>\<open>IndexExpr\<close> is a pointer to a node, or undefined (\<open>None\<close>).
\<close>

datatype ExprNode =
    AccessNode TensorVar "IndexVar list"
  | UnaryExprNode UnaryOp ExprNode
  | BinaryExprNode BinaryOp ExprNode ExprNode
  | ImmExprNode ImmVal

type_synonym IndexExpr = "ExprNode option"

datatype error =
    OutOfRange
  | InternalAssert
  | ExprDimensionMismatch
  | ExprTransposition
  | ExprDistribution
  | CannotReassign

subsection \<open>Structural equality: \<^verbatim>\<open>struct Equals\<close> and \<^verbatim>\<open>equals\<close>\<close>

text \<open>
  The loop of \<^verbatim>\<open>Equals::visit(const AccessNode*)\<close>: \<^verbatim>\<open>i\<close> runs over the index variables of
  \<^verbatim>\<open>anode\<close> and reads \<^verbatim>\<open>bnode->indexVars[i]\<close>; when \<^verbatim>\<open>bnode\<close> has no position \<^verbatim>\<open>i\<close> the
  read is out of range.
\<close>

fun indexVarsLoop :: "IndexVar list \<Rightarrow> IndexVar list \<Rightarrow> error + bool" where
  "indexVarsLoop [] bs = Inr True"
| "indexVarsLoop (a # as) [] = Inl OutOfRange"
| "indexVarsLoop (a # as) (b # bs) = (if a \<noteq> b then Inr False else indexVarsLoop as bs)"

fun immediateEquals :: "ImmVal \<Rightarrow> ImmVal \<Rightarrow> bool" where
  "immediateEquals (IntImmNode x) b =
     (case b of IntImmNode y \<Rightarrow> (if x \<noteq> y then False else True) | _ \<Rightarrow> False)"
| "immediateEquals (FloatImmNode x) b =
     (case b of FloatImmNode y \<Rightarrow> (if double_ne x y then False else True) | _ \<Rightarrow> False)"
| "immediateEquals (ComplexImmNode xr xi) b =
     (case b of ComplexImmNode yr yi \<Rightarrow>
        (if double_ne xr yr \<or> double_ne xi yi then False else True) | _ \<Rightarrow> False)"
| "immediateEquals (UIntImmNode x) b =
     (case b of UIntImmNode y \<Rightarrow> (if x \<noteq> y then False else True) | _ \<Rightarrow> False)"

text \<open>
  \<^verbatim>\<open>Equals().check(a, b)\<close> for defined \<^verbatim>\<open>a\<close> and \<^verbatim>\<open>b\<close>. The size test of the access case
  compares \<^verbatim>\<open>anode->indexVars.size()\<close> with itself, as the source does. The operands of a
  node are defined, so the inner calls of \<^verbatim>\<open>equals\<close> go to \<open>check\<close> again; \<^verbatim>\<open>||\<close> in
  \<^verbatim>\<open>binaryEquals\<close> evaluates its right side only when the left operands are equal.
\<close>

fun check :: "ExprNode \<Rightarrow> ExprNode \<Rightarrow> error + bool" where
  "check (AccessNode t ivs) b =
     (case b of
        AccessNode t' ivs' \<Rightarrow>
          (if t \<noteq> t' then Inr False
           else if length ivs \<noteq> length ivs then Inr False
           else indexVarsLoop ivs ivs')
      | _ \<Rightarrow> Inr False)"
| "check (UnaryExprNode opr a) b =
     (case b of
        UnaryExprNode opr' a' \<Rightarrow>
          (if opr \<noteq> opr' then Inr False
           else (case check a a' of
                   Inl e \<Rightarrow> Inl e
                 | Inr r \<Rightarrow> (if \<not> r then Inr False else Inr True)))
      | _ \<Rightarrow> Inr False)"
| "check (BinaryExprNode opr a1 a2) b =
     (case b of
        BinaryExprNode opr' b1 b2 \<Rightarrow>
          (if opr \<noteq> opr' then Inr False
           else (case check a1 b1 of
                   Inl e \<Rightarrow> Inl e
                 | Inr r1 \<Rightarrow>
                     (if \<not> r1 then Inr False
                      else (case check a2 b2 of
                              Inl e \<Rightarrow> Inl e
                            | Inr r2 \<Rightarrow> (if \<not> r2 then Inr False else Inr True)))))
      | _ \<Rightarrow> Inr False)"
| "check (ImmExprNode v) b =
     (case b of ImmExprNode w \<Rightarrow> Inr (immediateEquals v w) | _ \<Rightarrow> Inr False)"

fun equals :: "IndexExpr \<Rightarrow> IndexExpr \<Rightarrow> error + bool" where
  "equals None None = Inr True"
| "equals (Some a) None = Inr False"
| "equals None (Some b) = Inr False"
| "equals (Some a) (Some b) = check a b"

subsection \<open>Simplification: \<^verbatim>\<open>struct Simplify\<close> and \<^verbatim>\<open>simplify\<close>\<close>

text \<open>
  \<^verbatim>\<open>visitUnaryOp\<close>, \<^verbatim>\<open>visitDisjunctionOp\<close> and \<^verbatim>\<open>visitConjunctionOp\<close>, applied to the node
  \<open>opr a b\<close> and the rewritten operands. Where the rewritten operands are the operands of
  the node, the node itself is returned, else a new node is built.
\<close>

fun visitUnaryOp :: "UnaryOp \<Rightarrow> ExprNode \<Rightarrow> IndexExpr \<Rightarrow> IndexExpr" where
  "visitUnaryOp opr a None = None"
| "visitUnaryOp opr a (Some a') =
     (if a' = a then Some (UnaryExprNode opr a) else Some (UnaryExprNode opr a'))"

fun visitDisjunctionOp ::
  "BinaryOp \<Rightarrow> ExprNode \<Rightarrow> ExprNode \<Rightarrow> IndexExpr \<Rightarrow> IndexExpr \<Rightarrow> IndexExpr" where
  "visitDisjunctionOp opr a b None None = None"
| "visitDisjunctionOp opr a b None (Some b') = Some b'"
| "visitDisjunctionOp opr a b (Some a') None = Some a'"
| "visitDisjunctionOp opr a b (Some a') (Some b') =
     (if a' = a \<and> b' = b then Some (BinaryExprNode opr a b)
      else Some (BinaryExprNode opr a' b'))"

fun visitConjunctionOp ::
  "BinaryOp \<Rightarrow> ExprNode \<Rightarrow> ExprNode \<Rightarrow> IndexExpr \<Rightarrow> IndexExpr \<Rightarrow> IndexExpr" where
  "visitConjunctionOp opr a b (Some a') (Some b') =
     (if a' = a \<and> b' = b then Some (BinaryExprNode opr a b)
      else Some (BinaryExprNode opr a' b'))"
| "visitConjunctionOp opr a b a' b' = None"

text \<open>
  Modelled from the spec: the order of \<^verbatim>\<open>Access\<close> handles that \<^verbatim>\<open>std::set<Access>\<close> and
  \<^verbatim>\<open>util::contains\<close> use is declared in a header that is not among the sources. The
  exhausted set is keyed by the access itself (its tensor variable and index variables),
  so membership is membership of the access node in a set of access nodes.
\<close>

fun rewrite :: "ExprNode set \<Rightarrow> ExprNode \<Rightarrow> IndexExpr" where
  "rewrite exhausted (AccessNode t ivs) =
     (if AccessNode t ivs \<in> exhausted then None else Some (AccessNode t ivs))"
| "rewrite exhausted (UnaryExprNode opr a) = visitUnaryOp opr a (rewrite exhausted a)"
| "rewrite exhausted (BinaryExprNode opr a b) =
     (case opr of
        AddNode \<Rightarrow> visitDisjunctionOp opr a b (rewrite exhausted a) (rewrite exhausted b)
      | SubNode \<Rightarrow> visitDisjunctionOp opr a b (rewrite exhausted a) (rewrite exhausted b)
      | MulNode \<Rightarrow> visitConjunctionOp opr a b (rewrite exhausted a) (rewrite exhausted b)
      | DivNode \<Rightarrow> visitConjunctionOp opr a b (rewrite exhausted a) (rewrite exhausted b))"
| "rewrite exhausted (ImmExprNode v) = Some (ImmExprNode v)"

definition simplify :: "ExprNode \<Rightarrow> ExprNode set \<Rightarrow> IndexExpr" where
  "simplify expr exhausted = rewrite exhausted expr"

section \<open>Lowering analyses (expr\_tools.cpp)\<close>

subsection \<open>\<^verbatim>\<open>getAvailableExpressions\<close>\<close>





subsection \<open>\<^verbatim>\<open>getSubExprOld\<close> and \<^verbatim>\<open>getSubExpr\<close>\<close>

text \<open>
  The loop of the access case of both visitors: it stops at the first index variable that
  is in \<^verbatim>\<open>vars\<close>.
\<close>

fun accessKept :: "IndexVar set \<Rightarrow> IndexVar list \<Rightarrow> bool" where
  "accessKept vars [] = False"
| "accessKept vars (v # vs) = (if v \<in> vars then True else accessKept vars vs)"

text \<open>
  Both visitors hold the field \<^verbatim>\<open>subExpr\<close>, which is the state threaded here:
  \<^verbatim>\<open>getSubExpression\<close> visits the expression, returns what the visit stored in the field
  and resets the field to the undefined expression.
\<close>

fun visitOld :: "IndexVar set \<Rightarrow> ExprNode \<Rightarrow> IndexExpr \<Rightarrow> IndexExpr"
  and getSubExpressionOld :: "IndexVar set \<Rightarrow> ExprNode \<Rightarrow> IndexExpr \<Rightarrow> IndexExpr \<times> IndexExpr"
where
  "visitOld vars (AccessNode t ivs) subExpr =
     (if accessKept vars ivs then Some (AccessNode t ivs) else None)"
| "visitOld vars (UnaryExprNode opr x) subExpr =
     (case getSubExpressionOld vars x subExpr of
        (a, s1) \<Rightarrow> (if a \<noteq> None then Some (UnaryExprNode opr x) else None))"
| "visitOld vars (BinaryExprNode opr x y) subExpr =
     (case getSubExpressionOld vars x subExpr of
        (a, s1) \<Rightarrow>
          (case getSubExpressionOld vars y s1 of
             (b, s2) \<Rightarrow>
               (if a \<noteq> None \<and> b \<noteq> None then Some (BinaryExprNode opr x y)
                else if a \<noteq> None then a
                else if b \<noteq> None then b
                else None)))"
| "visitOld vars (ImmExprNode v) subExpr = None"
| "getSubExpressionOld vars expr subExpr = (visitOld vars expr subExpr, None)"


text \<open>\<^verbatim>\<open>binarySubExpr\<close> once both operands are extracted.\<close>

fun binarySubExpr :: "BinaryOp \<Rightarrow> IndexExpr \<Rightarrow> IndexExpr \<Rightarrow> IndexExpr" where
  "binarySubExpr opr (Some a) (Some b) = Some (BinaryExprNode opr a b)"
| "binarySubExpr opr (Some a) None = Some a"
| "binarySubExpr opr None (Some b) = Some b"
| "binarySubExpr opr None None = None"

fun visitSub :: "IndexVar set \<Rightarrow> ExprNode \<Rightarrow> IndexExpr \<Rightarrow> IndexExpr"
  and getSubExpression :: "IndexVar set \<Rightarrow> ExprNode \<Rightarrow> IndexExpr \<Rightarrow> IndexExpr \<times> IndexExpr"
where
  "visitSub vars (AccessNode t ivs) subExpr =
     (if accessKept vars ivs then Some (AccessNode t ivs) else None)"
| "visitSub vars (UnaryExprNode opr x) subExpr =
     (case getSubExpression vars x subExpr of
        (a, s1) \<Rightarrow> (if a \<noteq> None then Some (UnaryExprNode opr x) else None))"
| "visitSub vars (BinaryExprNode opr x y) subExpr =
     (case getSubExpression vars x subExpr of
        (a, s1) \<Rightarrow>
          (case getSubExpression vars y s1 of
             (b, s2) \<Rightarrow> binarySubExpr opr a b))"
| "visitSub vars (ImmExprNode v) subExpr = None"
| "getSubExpression vars expr subExpr = (visitSub vars expr subExpr, None)"

definition getSubExpr :: "ExprNode \<Rightarrow> IndexVar list \<Rightarrow> IndexExpr" where
  "getSubExpr expr vars = fst (getSubExpression (set vars) expr None)"

section \<open>Tensor variables and definition binding (expr.cpp)\<close>

text \<open>
  Modelled from the spec: \<^verbatim>\<open>Dimension\<close>, \<^verbatim>\<open>Shape\<close>, \<^verbatim>\<open>Type\<close> and \<^verbatim>\<open>Format\<close> are declared in
  headers that are not among the sources. A dimension is a fixed size or variable, a shape
  is the list of the dimensions and its order is the length of the list; a type is an
  element type and a shape; a format is kept as an opaque code.
\<close>

datatype Dimension = Variable | Fixed nat

record Type =
  dataType :: string
  shape :: "Dimension list"

type_synonym Format = nat

text \<open>
  \<^verbatim>\<open>TensorVar::Content\<close>. A tensor variable is the address of its content block and the
  heap gives the block of every address, so that two copies of a handle share one block,
  as \<^verbatim>\<open>TensorVar result = getTensorVar()\<close> in the assignment operators relies on.
\<close>

record Content =
  name :: string
  type :: Type
  format :: Format
  freeVars :: "IndexVar list"
  indexExpr :: IndexExpr
  accumulate :: bool

type_synonym Heap = "TensorVar \<Rightarrow> Content"

definition getOrder :: "Heap \<Rightarrow> TensorVar \<Rightarrow> nat" where
  "getOrder h t = length (shape (type (h t)))"

text \<open>
  The three checks of \<^verbatim>\<open>namespace error\<close> that \<^verbatim>\<open>setIndexExpression\<close> calls are defined
  outside the sources; they are parameters of the model, with the arguments the calls
  pass.
\<close>

record ErrorChecks =
  dimensionsTypecheck :: "IndexVar list \<Rightarrow> IndexExpr \<Rightarrow> Dimension list \<Rightarrow> bool"
  containsTranspose :: "Format \<Rightarrow> IndexVar list \<Rightarrow> IndexExpr \<Rightarrow> bool"
  containsDistribution :: "IndexVar list \<Rightarrow> IndexExpr \<Rightarrow> bool"

text \<open>
  \<^verbatim>\<open>TensorVar::setIndexExpression\<close>. A failed \<^verbatim>\<open>taco_uassert\<close> leaves the function before
  any of the three assignments; the result is the error, if any, and the heap afterwards.
\<close>

definition setIndexExpression ::
  "ErrorChecks \<Rightarrow> TensorVar \<Rightarrow> IndexVar list \<Rightarrow> IndexExpr \<Rightarrow> bool \<Rightarrow> Heap
    \<Rightarrow> error option \<times> Heap" where
  "setIndexExpression chk this fv e acc h =
     (let shp = shape (type (h this)) in
      if \<not> dimensionsTypecheck chk fv e shp then (Some ExprDimensionMismatch, h)
      else if containsTranspose chk (format (h this)) fv e then (Some ExprTransposition, h)
      else if containsDistribution chk fv e then (Some ExprDistribution, h)
      else (None, h(this := (h this)\<lparr>freeVars := fv, indexExpr := e, accumulate := acc\<rparr>)))"

text \<open>
  \<^verbatim>\<open>Access::operator=\<close> and \<^verbatim>\<open>Access::operator+=\<close> on the access of tensor variable \<open>t\<close>
  with index variables \<open>ivs\<close>. The plain assignment leaves the accumulate argument to its
  default, \<^verbatim>\<open>false\<close>.
\<close>

definition Access_assign ::
  "ErrorChecks \<Rightarrow> TensorVar \<Rightarrow> IndexVar list \<Rightarrow> IndexExpr \<Rightarrow> Heap \<Rightarrow> error option \<times> Heap" where
  "Access_assign chk t ivs e h =
     (if indexExpr (h t) \<noteq> None then (Some CannotReassign, h)
      else setIndexExpression chk t ivs e False h)"

definition Access_accumulate ::
  "ErrorChecks \<Rightarrow> TensorVar \<Rightarrow> IndexVar list \<Rightarrow> IndexExpr \<Rightarrow> Heap \<Rightarrow> error option \<times> Heap" where
  "Access_accumulate chk t ivs e h =
     (if indexExpr (h t) \<noteq> None then (Some CannotReassign, h)
      else setIndexExpression chk t ivs e True h)"

subsection \<open>\<^verbatim>\<open>getIndexVarRanges\<close>\<close>

text \<open>\<^verbatim>\<open>std::map::insert\<close>: a key that is present keeps its value.\<close>

definition map_insert ::
  "(IndexVar \<rightharpoonup> Dimension) \<Rightarrow> IndexVar \<Rightarrow> Dimension \<Rightarrow> (IndexVar \<rightharpoonup> Dimension)" where
  "map_insert m k d = (case m k of None \<Rightarrow> m(k \<mapsto> d) | Some d' \<Rightarrow> m)"

text \<open>
  The loop \<^verbatim>\<open>for (i = 0; i < vars.size(); i++) insert({vars[i], getDimension(i)})\<close>, walking
  the variables and the dimensions of the shape together. \<^verbatim>\<open>Shape::getDimension\<close> is not
  among the sources; a position beyond the order of the shape is an out-of-range read.
\<close>

fun insertRanges ::
  "(IndexVar \<rightharpoonup> Dimension) \<Rightarrow> IndexVar list \<Rightarrow> Dimension list
    \<Rightarrow> error + (IndexVar \<rightharpoonup> Dimension)" where
  "insertRanges m [] ds = Inr m"
| "insertRanges m (v # vs) [] = Inl OutOfRange"
| "insertRanges m (v # vs) (d # ds) = insertRanges (map_insert m v d) vs ds"

text \<open>
  Modelled from the spec: \<^verbatim>\<open>match\<close> is declared in a header that is not among the sources.
  It calls the handler once on every access node of the expression in traversal order,
  the operands of a node from left to right; an undefined expression has no node to visit.
\<close>

fun accessNodes :: "ExprNode \<Rightarrow> (TensorVar \<times> IndexVar list) list" where
  "accessNodes (AccessNode t ivs) = [(t, ivs)]"
| "accessNodes (UnaryExprNode opr a) = accessNodes a"
| "accessNodes (BinaryExprNode opr a b) = accessNodes a @ accessNodes b"
| "accessNodes (ImmExprNode v) = []"

fun matchRanges ::
  "Heap \<Rightarrow> (IndexVar \<rightharpoonup> Dimension) \<Rightarrow> (TensorVar \<times> IndexVar list) list
    \<Rightarrow> error + (IndexVar \<rightharpoonup> Dimension)" where
  "matchRanges h m [] = Inr m"
| "matchRanges h m ((t, ivs) # rest) =
     (case insertRanges m ivs (shape (type (h t))) of
        Inl e \<Rightarrow> Inl e
      | Inr m' \<Rightarrow> matchRanges h m' rest)"

definition getIndexVarRanges :: "Heap \<Rightarrow> TensorVar \<Rightarrow> error + (IndexVar \<rightharpoonup> Dimension)" where
  "getIndexVarRanges h tensor =
     (case insertRanges Map.empty (freeVars (h tensor)) (shape (type (h tensor))) of
        Inl e \<Rightarrow> Inl e
      | Inr m \<Rightarrow>
          (case indexExpr (h tensor) of
             None \<Rightarrow> Inr m
           | Some e \<Rightarrow> matchRanges h m (accessNodes e)))"

section \<open>Scalar lowering (lower\_codegen.cpp)\<close>

text \<open>The low-level IR, as far as \<^verbatim>\<open>lowerToScalarExpression\<close> builds it.\<close>

datatype TensorProperty = Values

datatype ir_Expr =
    ir_Var string
  | ir_Literal ImmVal
  | ir_Neg ir_Expr
  | ir_Sqrt ir_Expr
  | ir_Add ir_Expr ir_Expr
  | ir_Sub ir_Expr ir_Expr
  | ir_Mul ir_Expr ir_Expr
  | ir_Div ir_Expr ir_Expr
  | ir_GetProperty ir_Expr TensorProperty
  | ir_Load ir_Expr ir_Expr

text \<open>
  The iterators, the iterator table and the iteration graph are declared outside the
  sources. An iterator gives its position variable and its tensor; tensor paths and their
  steps are the opaque types \<open>'p\<close> and \<open>'s\<close>. A lookup that cannot be resolved is \<open>None\<close>
  and makes the lowering fail.
\<close>

record Iterator =
  getPtrVar :: ir_Expr
  getTensor :: ir_Expr

record ('p, 's) Iterators =
  getRoot :: "'p \<rightharpoonup> Iterator"
  atStep :: "'s \<rightharpoonup> Iterator"

record ('p, 's) IterationGraph =
  getTensorPath :: "ExprNode \<rightharpoonup> 'p"
  getLastStep :: "'p \<rightharpoonup> 's"

text \<open>\<^verbatim>\<open>ScalarCode::visit(const AccessNode*)\<close>.\<close>

definition lowerAccess ::
  "Heap \<Rightarrow> ('p, 's) Iterators \<Rightarrow> ('p, 's) IterationGraph \<Rightarrow> (TensorVar \<rightharpoonup> ir_Expr)
    \<Rightarrow> TensorVar \<Rightarrow> IndexVar list \<Rightarrow> error + ir_Expr" where
  "lowerAccess h iterators iterationGraph temporaries t ivs =
     (case temporaries t of
        Some v \<Rightarrow> Inr v
      | None \<Rightarrow>
          (case getTensorPath iterationGraph (AccessNode t ivs) of
             None \<Rightarrow> Inl InternalAssert
           | Some path \<Rightarrow>
               (case (if getOrder h t = 0 then getRoot iterators path
                      else (case getLastStep iterationGraph path of
                              None \<Rightarrow> None
                            | Some st \<Rightarrow> atStep iterators st)) of
                  None \<Rightarrow> Inl InternalAssert
                | Some iterator \<Rightarrow>
                    Inr (ir_Load (ir_GetProperty (getTensor iterator) Values)
                           (getPtrVar iterator)))))"

text \<open>
  \<^verbatim>\<open>ScalarCode::lower\<close>: the value the visit leaves in the field \<^verbatim>\<open>expr\<close>. Every
  failure is the same error, so the order in which the two operands of a binary node are
  lowered does not show in the result.
\<close>

fun lower ::
  "Heap \<Rightarrow> ('p, 's) Iterators \<Rightarrow> ('p, 's) IterationGraph \<Rightarrow> (TensorVar \<rightharpoonup> ir_Expr)
    \<Rightarrow> ExprNode \<Rightarrow> error + ir_Expr" where
  "lower h its g tmp (AccessNode t ivs) = lowerAccess h its g tmp t ivs"
| "lower h its g tmp (UnaryExprNode opr a) =
     (case lower h its g tmp a of
        Inl e \<Rightarrow> Inl e
      | Inr a' \<Rightarrow> Inr (case opr of NegNode \<Rightarrow> ir_Neg a' | SqrtNode \<Rightarrow> ir_Sqrt a'))"
| "lower h its g tmp (BinaryExprNode opr a b) =
     (case lower h its g tmp a of
        Inl e \<Rightarrow> Inl e
      | Inr a' \<Rightarrow>
          (case lower h its g tmp b of
             Inl e \<Rightarrow> Inl e
           | Inr b' \<Rightarrow>
               Inr (case opr of
                      AddNode \<Rightarrow> ir_Add a' b'
                    | SubNode \<Rightarrow> ir_Sub a' b'
                    | MulNode \<Rightarrow> ir_Mul a' b'
                    | DivNode \<Rightarrow> ir_Div a' b')))"
| "lower h its g tmp (ImmExprNode v) = Inr (ir_Literal v)"

definition lowerToScalarExpression ::
  "Heap \<Rightarrow> ExprNode \<Rightarrow> ('p, 's) Iterators \<Rightarrow> ('p, 's) IterationGraph
    \<Rightarrow> (TensorVar \<rightharpoonup> ir_Expr) \<Rightarrow> error + ir_Expr" where
  "lowerToScalarExpression h expr iterators iterationGraph temporaries =
     lower h iterators iterationGraph temporaries expr"

section \<open>Notions used in the statements\<close>

subsection \<open>Well-formed expressions\<close>

text \<open>
  An access is well formed when it has as many index variables as its tensor has
  dimensions, which \<^verbatim>\<open>TensorVar::operator()\<close> asserts and the constructor
  \<^verbatim>\<open>Access(const TensorVar&, const std::vector<IndexVar>&)\<close> does not.
\<close>

fun wellFormed :: "Heap \<Rightarrow> ExprNode \<Rightarrow> bool" where
  "wellFormed h (AccessNode t ivs) = (length ivs = getOrder h t)"
| "wellFormed h (UnaryExprNode opr a) = wellFormed h a"
| "wellFormed h (BinaryExprNode opr a b) = (wellFormed h a \<and> wellFormed h b)"
| "wellFormed h (ImmExprNode v) = True"

fun nanFreeImm :: "ImmVal \<Rightarrow> bool" where
  "nanFreeImm (FloatImmNode x) = (x \<noteq> NaN)"
| "nanFreeImm (ComplexImmNode xr xi) = (xr \<noteq> NaN \<and> xi \<noteq> NaN)"
| "nanFreeImm v = True"

fun nanFree :: "ExprNode \<Rightarrow> bool" where
  "nanFree (AccessNode t ivs) = True"
| "nanFree (UnaryExprNode opr a) = nanFree a"
| "nanFree (BinaryExprNode opr a b) = (nanFree a \<and> nanFree b)"
| "nanFree (ImmExprNode v) = nanFreeImm v"

subsection \<open>Leaves and availability\<close>

text \<open>The leaves of an expression, from left to right, one entry per occurrence.\<close>

fun leaves :: "ExprNode \<Rightarrow> ExprNode list" where
  "leaves (AccessNode t ivs) = [AccessNode t ivs]"
| "leaves (UnaryExprNode opr a) = leaves a"
| "leaves (BinaryExprNode opr a b) = leaves a @ leaves b"
| "leaves (ImmExprNode v) = [ImmExprNode v]"

text \<open>
  A leaf is available iff it is an immediate or an access whose index variables are all
  visited; an expression is available iff all its leaves are.
\<close>

fun leafAvailable :: "IndexVar set \<Rightarrow> ExprNode \<Rightarrow> bool" where
  "leafAvailable V (AccessNode t ivs) = (set ivs \<subseteq> V)"
| "leafAvailable V (ImmExprNode v) = True"
| "leafAvailable V e = False"

definition available :: "IndexVar set \<Rightarrow> ExprNode \<Rightarrow> bool" where
  "available V e = list_all (leafAvailable V) (leaves e)"


subsection \<open>Sub-expression extraction\<close>

text \<open>
  Sub-expression extraction as the specification words it, to be compared with
  \<open>getSubExpr\<close>: a unary node wraps the extraction of its operand.
\<close>

fun getSubExprSpec :: "IndexVar set \<Rightarrow> ExprNode \<Rightarrow> IndexExpr" where
  "getSubExprSpec S (AccessNode t ivs) =
     (if set ivs \<inter> S \<noteq> {} then Some (AccessNode t ivs) else None)"
| "getSubExprSpec S (UnaryExprNode opr a) =
     (case getSubExprSpec S a of None \<Rightarrow> None | Some a' \<Rightarrow> Some (UnaryExprNode opr a'))"
| "getSubExprSpec S (BinaryExprNode opr a b) =
     (case (getSubExprSpec S a, getSubExprSpec S b) of
        (Some a', Some b') \<Rightarrow> Some (BinaryExprNode opr a' b')
      | (Some a', None) \<Rightarrow> Some a'
      | (None, Some b') \<Rightarrow> Some b'
      | (None, None) \<Rightarrow> None)"
| "getSubExprSpec S (ImmExprNode v) = None"

text \<open>An expression references \<open>S\<close> when one of its accesses has an index variable in \<open>S\<close>.\<close>

definition references :: "IndexVar set \<Rightarrow> ExprNode \<Rightarrow> bool" where
  "references S e = list_ex (\<lambda>acc. set (snd acc) \<inter> S \<noteq> {}) (accessNodes e)"

text \<open>
  An expression is residual for \<open>S\<close> when, outside its unary nodes, every leaf is an access
  with an index variable in \<open>S\<close>, and every unary node met first on a path from the root
  has an operand that references \<open>S\<close>.
\<close>

fun residual :: "IndexVar set \<Rightarrow> ExprNode \<Rightarrow> bool" where
  "residual S (AccessNode t ivs) = (set ivs \<inter> S \<noteq> {})"
| "residual S (UnaryExprNode opr a) = references S a"
| "residual S (BinaryExprNode opr a b) = (residual S a \<and> residual S b)"
| "residual S (ImmExprNode v) = False"

subsection \<open>Index variable ranges\<close>

text \<open>
  The positions at which \<open>getIndexVarRanges\<close> meets index variables, in the order it meets
  them, each with the dimension of the position: the free variables of the tensor, then
  the index variables of the accesses of the expression.
\<close>

definition occurrences :: "Heap \<Rightarrow> TensorVar \<Rightarrow> ExprNode \<Rightarrow> (IndexVar \<times> Dimension) list" where
  "occurrences h tensor e =
     zip (freeVars (h tensor)) (shape (type (h tensor)))
     @ concat (map (\<lambda>acc. zip (snd acc) (shape (type (h (fst acc))))) (accessNodes e))"

definition arityWithinOrder :: "Heap \<Rightarrow> TensorVar \<Rightarrow> ExprNode \<Rightarrow> bool" where
  "arityWithinOrder h tensor e =
     (length (freeVars (h tensor)) \<le> getOrder h tensor
      \<and> list_all (\<lambda>acc. length (snd acc) \<le> getOrder h (fst acc)) (accessNodes e))"

subsection \<open>Example expressions, tensors and tables\<close>

text \<open>
  The tensors \<open>a\<close>, \<open>b\<close>, \<open>c\<close> are the tensor variables 0, 1, 2 and the index variables
  \<open>i\<close>, \<open>j\<close> are 0, 1.
\<close>

definition ex_a_i :: ExprNode where "ex_a_i = AccessNode 0 [0]"
definition ex_b_i :: ExprNode where "ex_b_i = AccessNode 1 [0]"
definition ex_c_i :: ExprNode where "ex_c_i = AccessNode 2 [0]"
definition ex_b_j :: ExprNode where "ex_b_j = AccessNode 1 [1]"
definition ex_c_j :: ExprNode where "ex_c_j = AccessNode 2 [1]"
definition ex_a_ij :: ExprNode where "ex_a_ij = AccessNode 0 [0, 1]"
definition ex_nan :: ExprNode where "ex_nan = ImmExprNode (FloatImmNode NaN)"

definition ex_checks :: ErrorChecks where
  "ex_checks = \<lparr>dimensionsTypecheck = (\<lambda>fv e shp. length fv = length shp),
                 containsTranspose = (\<lambda>fmt fv e. False),
                 containsDistribution = (\<lambda>fv e. False)\<rparr>"

definition ex_vector :: Content where
  "ex_vector = \<lparr>name = ''A'', type = \<lparr>dataType = ''double'', shape = [Fixed 3]\<rparr>, format = 0,
                 freeVars = [], indexExpr = None, accumulate = False\<rparr>"

definition ex_heap :: Heap where
  "ex_heap = (\<lambda>t. ex_vector)"

definition ex_heap_defined :: Heap where
  "ex_heap_defined = (\<lambda>t. ex_vector\<lparr>freeVars := [0], indexExpr := Some ex_b_i\<rparr>)"

definition ex_heap_ranges :: Heap where
  "ex_heap_ranges =
     (\<lambda>t. if t = 0 then ex_vector\<lparr>freeVars := [0], indexExpr := Some ex_b_i\<rparr>
          else ex_vector\<lparr>name := ''B'', type := \<lparr>dataType = ''double'', shape = [Fixed 5]\<rparr>\<rparr>)"

definition ex_iterator :: Iterator where
  "ex_iterator = \<lparr>getPtrVar = ir_Var ''pA1'', getTensor = ir_Var ''A''\<rparr>"

definition ex_iterators :: "(nat, nat) Iterators" where
  "ex_iterators = \<lparr>getRoot = Map.empty, atStep = [0 \<mapsto> ex_iterator]\<rparr>"

definition ex_graph :: "(nat, nat) IterationGraph" where
  "ex_graph = \<lparr>getTensorPath = [ex_a_i \<mapsto> 7], getLastStep = [7 \<mapsto> 0]\<rparr>"

text \<open>A tensor of order zero, its access, and tables that know only the root of its path.\<close>

definition ex_s :: ExprNode where "ex_s = AccessNode 0 []"

definition ex_heap_scalar :: Heap where
  "ex_heap_scalar = (\<lambda>t. ex_vector\<lparr>type := \<lparr>dataType = ''double'', shape = []\<rparr>\<rparr>)"

definition ex_iterators_root :: "(nat, nat) Iterators" where
  "ex_iterators_root = \<lparr>getRoot = [7 \<mapsto> ex_iterator], atStep = Map.empty\<rparr>"

definition ex_graph_scalar :: "(nat, nat) IterationGraph" where
  "ex_graph_scalar = \<lparr>getTensorPath = [ex_s \<mapsto> 7], getLastStep = Map.empty\<rparr>"

lemmas ex_defs = ex_a_i_def ex_b_i_def ex_c_i_def ex_b_j_def ex_c_j_def ex_a_ij_def ex_nan_def

section \<open>Structural equality\<close>

lemma indexVarsLoop_True:
  "indexVarsLoop as bs = Inr True \<longleftrightarrow> length as \<le> length bs \<and> take (length as) bs = as"
  by (induction as bs rule: indexVarsLoop.induct) auto

lemma indexVarsLoop_OutOfRange:
  "indexVarsLoop as bs = Inl e \<longleftrightarrow>
     e = OutOfRange \<and> length bs < length as \<and> take (length bs) as = bs"
  by (induction as bs rule: indexVarsLoop.induct) auto

lemma indexVarsLoop_same_length:
  "length as = length bs \<Longrightarrow> indexVarsLoop as bs = Inr (as = bs)"
  by (induction as bs rule: indexVarsLoop.induct) auto

text \<open>
  What the access case decides: the tensor variables are identical and the index variables
  of the first access are an initial segment of those of the second.
\<close>

lemma check_access_prefix:
  "check (AccessNode t ivs) (AccessNode t' ivs') = Inr True \<longleftrightarrow>
     t = t' \<and> length ivs \<le> length ivs' \<and> take (length ivs) ivs' = ivs"
  by (simp add: indexVarsLoop_True)

lemma double_ne_iff: "x \<noteq> NaN \<Longrightarrow> double_ne x y = (x \<noteq> y)"
  by (cases x; cases y) auto

lemma immediateEquals_iff: "nanFreeImm v \<Longrightarrow> immediateEquals v w = (v = w)"
  by (cases v; cases w) (auto simp: double_ne_iff)

text \<open>
  On well-formed expressions without NaN literals \<open>equals\<close> decides the equality of the
  two trees, and so is reflexive, symmetric and transitive there.
\<close>

lemma check_wellFormed:
  "wellFormed h a \<Longrightarrow> wellFormed h b \<Longrightarrow> nanFree a \<Longrightarrow> check a b = Inr (a = b)"
proof (induction a arbitrary: b)
  case (AccessNode t ivs)
  then show ?case by (cases b) (auto simp: indexVarsLoop_same_length)
next
  case (UnaryExprNode opr a)
  then show ?case by (cases b) auto
next
  case (BinaryExprNode opr a1 a2)
  then show ?case by (cases b) auto
next
  case (ImmExprNode v)
  then show ?case by (cases b) (auto simp: immediateEquals_iff)
qed

lemma equals_wellFormed:
  "wellFormed h a \<Longrightarrow> wellFormed h b \<Longrightarrow> nanFree a \<Longrightarrow> equals (Some a) (Some b) = Inr (a = b)"
  by (simp add: check_wellFormed)

lemma equals_refl: "nanFree a \<Longrightarrow> equals (Some a) (Some a) = Inr True"
  by (induction a) (auto simp: indexVarsLoop_True immediateEquals_iff)

lemma equals_wellFormed_sym:
  "wellFormed h a \<Longrightarrow> wellFormed h b \<Longrightarrow> nanFree a \<Longrightarrow> nanFree b \<Longrightarrow>
     equals (Some a) (Some b) = equals (Some b) (Some a)"
  by (auto simp: check_wellFormed)

lemma equals_wellFormed_trans:
  "wellFormed h a \<Longrightarrow> wellFormed h b \<Longrightarrow> wellFormed h c \<Longrightarrow> nanFree a \<Longrightarrow> nanFree b \<Longrightarrow>
     equals (Some a) (Some b) = Inr True \<Longrightarrow> equals (Some b) (Some c) = Inr True \<Longrightarrow>
     equals (Some a) (Some c) = Inr True"
  by (simp add: check_wellFormed)

lemma equals_undefined:
  "equals None None = Inr True" "equals (Some a) None = Inr False" "equals None (Some b) = Inr False"
  by simp_all

text \<open>
  C5. The specification: two accesses are equal iff they have the identical tensor
  variable and index-variable sequences of equal length that are pairwise identical, so
  accesses of one tensor with index tuples of different lengths are unequal. In the code
  the test of the lengths compares the length of the first access with itself, and
  \<open>a(i)\<close> equals \<open>a(i,j)\<close>.
\<close>

theorem equals_access_shorter_index_list:
  "equals (Some ex_a_i) (Some ex_a_ij) = Inr True"
  by (simp add: ex_defs)

text \<open>
  C6. The specification: \<open>equals\<close> is an equivalence relation over expressions. In the
  code it is not symmetric: \<open>a(i) + b(i)\<close> equals \<open>a(i,j) + b(i)\<close>, and the comparison in
  the other order reads the index variables of \<open>a(i)\<close> out of range.
\<close>

theorem equals_not_symmetric:
  "equals (Some (BinaryExprNode AddNode ex_a_i ex_b_i))
          (Some (BinaryExprNode AddNode ex_a_ij ex_b_i)) = Inr True
   \<and> equals (Some (BinaryExprNode AddNode ex_a_ij ex_b_i))
            (Some (BinaryExprNode AddNode ex_a_i ex_b_i)) = Inl OutOfRange"
  by (simp add: ex_defs)

section \<open>Simplification\<close>

lemma rewrite_empty: "rewrite {} e = Some e"
proof (induction e)
  case (BinaryExprNode bop a b)
  then show ?case by (cases bop) simp_all
qed simp_all

text \<open>No access of the exhausted set is left in the result.\<close>

lemma rewrite_no_exhausted:
  "rewrite X e = Some r \<Longrightarrow> AccessNode t ivs \<in> X \<Longrightarrow> (t, ivs) \<notin> set (accessNodes r)"
proof (induction e arbitrary: r)
  case (AccessNode t' ivs')
  then show ?case by (auto split: if_splits)
next
  case (UnaryExprNode uop a)
  then show ?case by (cases "rewrite X a") (auto split: if_splits)
next
  case (BinaryExprNode bop a b)
  then show ?case
    by (cases bop; cases "rewrite X a"; cases "rewrite X b") (auto split: if_splits)
next
  case (ImmExprNode v)
  then show ?case by auto
qed

lemma visitDisjunctionOp_eq:
  "visitDisjunctionOp bop a b x y =
     (case (x, y) of
        (None, None) \<Rightarrow> None
      | (None, Some b') \<Rightarrow> Some b'
      | (Some a', None) \<Rightarrow> Some a'
      | (Some a', Some b') \<Rightarrow> Some (BinaryExprNode bop a' b'))"
  by (cases x; cases y) auto

lemma visitConjunctionOp_eq:
  "visitConjunctionOp bop a b x y =
     (case (x, y) of
        (Some a', Some b') \<Rightarrow> Some (BinaryExprNode bop a' b')
      | _ \<Rightarrow> None)"
  by (cases x; cases y) auto

lemma visitUnaryOp_eq:
  "visitUnaryOp uop a x = (case x of None \<Rightarrow> None | Some a' \<Rightarrow> Some (UnaryExprNode uop a'))"
  by (cases x) auto

text \<open>
  C3. For every expression and every set \<open>X\<close> of accesses, \<open>simplify\<close> replaces an access
  that belongs to \<open>X\<close> by the undefined expression and keeps any other access; a unary
  node is undefined if its rewritten operand is and wraps it otherwise; an add or
  subtract node is undefined only if both rewritten operands are, and is the other
  rewritten operand if exactly one is undefined; a multiply or divide node is undefined if
  either rewritten operand is; an immediate is unchanged. No access of \<open>X\<close> is left in a
  defined result. In particular \<open>simplify(e, {})\<close> is \<open>e\<close>, \<open>simplify(a(i) + b(i), {a(i)})\<close>
  is \<open>b(i)\<close>, and \<open>simplify(a(i) * b(i), {a(i)})\<close> and \<open>simplify(-a(i), {a(i)})\<close> are
  undefined.
\<close>

theorem simplify_characterisation:
  "simplify (AccessNode t ivs) X =
     (if AccessNode t ivs \<in> X then None else Some (AccessNode t ivs))
   \<and> simplify (UnaryExprNode uop a) X =
       (case simplify a X of None \<Rightarrow> None | Some a' \<Rightarrow> Some (UnaryExprNode uop a'))
   \<and> simplify (BinaryExprNode AddNode a b) X =
       (case (simplify a X, simplify b X) of
          (None, None) \<Rightarrow> None
        | (None, Some b') \<Rightarrow> Some b'
        | (Some a', None) \<Rightarrow> Some a'
        | (Some a', Some b') \<Rightarrow> Some (BinaryExprNode AddNode a' b'))
   \<and> simplify (BinaryExprNode SubNode a b) X =
       (case (simplify a X, simplify b X) of
          (None, None) \<Rightarrow> None
        | (None, Some b') \<Rightarrow> Some b'
        | (Some a', None) \<Rightarrow> Some a'
        | (Some a', Some b') \<Rightarrow> Some (BinaryExprNode SubNode a' b'))
   \<and> simplify (BinaryExprNode MulNode a b) X =
       (case (simplify a X, simplify b X) of
          (Some a', Some b') \<Rightarrow> Some (BinaryExprNode MulNode a' b')
        | _ \<Rightarrow> None)
   \<and> simplify (BinaryExprNode DivNode a b) X =
       (case (simplify a X, simplify b X) of
          (Some a', Some b') \<Rightarrow> Some (BinaryExprNode DivNode a' b')
        | _ \<Rightarrow> None)
   \<and> simplify (ImmExprNode v) X = Some (ImmExprNode v)
   \<and> (\<forall>r t' ivs'. simplify e X = Some r \<and> AccessNode t' ivs' \<in> X \<longrightarrow>
         (t', ivs') \<notin> set (accessNodes r))
   \<and> simplify e {} = Some e
   \<and> (nanFree e \<longrightarrow> equals (simplify e {}) (Some e) = Inr True)
   \<and> simplify (BinaryExprNode AddNode ex_a_i ex_b_i) {ex_a_i} = Some ex_b_i
   \<and> equals (simplify (BinaryExprNode AddNode ex_a_i ex_b_i) {ex_a_i}) (Some ex_b_i) = Inr True
   \<and> simplify (BinaryExprNode MulNode ex_a_i ex_b_i) {ex_a_i} = None
   \<and> simplify (UnaryExprNode NegNode ex_a_i) {ex_a_i} = None"
proof -
  have no_exhausted: "\<forall>r t' ivs'. simplify e X = Some r \<and> AccessNode t' ivs' \<in> X \<longrightarrow>
         (t', ivs') \<notin> set (accessNodes r)"
    unfolding simplify_def using rewrite_no_exhausted [of X e] by blast
  have refl: "nanFree e \<longrightarrow> equals (simplify e {}) (Some e) = Inr True"
    using equals_refl [of e] by (simp add: simplify_def rewrite_empty)
  have eqs: "simplify (AccessNode t ivs) X =
     (if AccessNode t ivs \<in> X then None else Some (AccessNode t ivs))
   \<and> simplify (UnaryExprNode uop a) X =
       (case simplify a X of None \<Rightarrow> None | Some a' \<Rightarrow> Some (UnaryExprNode uop a'))
   \<and> simplify (BinaryExprNode AddNode a b) X =
       (case (simplify a X, simplify b X) of
          (None, None) \<Rightarrow> None
        | (None, Some b') \<Rightarrow> Some b'
        | (Some a', None) \<Rightarrow> Some a'
        | (Some a', Some b') \<Rightarrow> Some (BinaryExprNode AddNode a' b'))
   \<and> simplify (BinaryExprNode SubNode a b) X =
       (case (simplify a X, simplify b X) of
          (None, None) \<Rightarrow> None
        | (None, Some b') \<Rightarrow> Some b'
        | (Some a', None) \<Rightarrow> Some a'
        | (Some a', Some b') \<Rightarrow> Some (BinaryExprNode SubNode a' b'))
   \<and> simplify (BinaryExprNode MulNode a b) X =
       (case (simplify a X, simplify b X) of
          (Some a', Some b') \<Rightarrow> Some (BinaryExprNode MulNode a' b')
        | _ \<Rightarrow> None)
   \<and> simplify (BinaryExprNode DivNode a b) X =
       (case (simplify a X, simplify b X) of
          (Some a', Some b') \<Rightarrow> Some (BinaryExprNode DivNode a' b')
        | _ \<Rightarrow> None)
   \<and> simplify (ImmExprNode v) X = Some (ImmExprNode v)"
    unfolding simplify_def
    by (intro conjI)
       (simp_all only: rewrite.simps BinaryOp.case visitDisjunctionOp_eq visitConjunctionOp_eq
          visitUnaryOp_eq)
  have exs: "simplify e {} = Some e"
    "simplify (BinaryExprNode AddNode ex_a_i ex_b_i) {ex_a_i} = Some ex_b_i"
    "equals (simplify (BinaryExprNode AddNode ex_a_i ex_b_i) {ex_a_i}) (Some ex_b_i) = Inr True"
    "simplify (BinaryExprNode MulNode ex_a_i ex_b_i) {ex_a_i} = None"
    "simplify (UnaryExprNode NegNode ex_a_i) {ex_a_i} = None"
    by (simp_all add: simplify_def rewrite_empty ex_defs)
  from eqs no_exhausted refl exs show ?thesis by blast
qed

theorem simplify_characterisation_witness:
  "simplify (BinaryExprNode SubNode (UnaryExprNode NegNode ex_a_i)
               (BinaryExprNode DivNode ex_b_i ex_c_j)) {ex_c_j}
     = Some (UnaryExprNode NegNode ex_a_i)
   \<and> ex_c_j \<in> {ex_c_j}
   \<and> (2, [1]) \<notin> set (accessNodes (UnaryExprNode NegNode ex_a_i))
   \<and> nanFree (UnaryExprNode NegNode ex_a_i)
   \<and> equals (simplify (UnaryExprNode NegNode ex_a_i) {}) (Some (UnaryExprNode NegNode ex_a_i))
       = Inr True"
  using simplify_characterisation
    [of 0 "[0]" "{ex_c_j}" NegNode ex_a_i "BinaryExprNode DivNode ex_b_i ex_c_j"
        "IntImmNode 0"
        "BinaryExprNode SubNode (UnaryExprNode NegNode ex_a_i)
           (BinaryExprNode DivNode ex_b_i ex_c_j)"]
    simplify_characterisation
    [of 0 "[0]" "{ex_c_j}" NegNode ex_a_i "BinaryExprNode DivNode ex_b_i ex_c_j"
        "IntImmNode 0" "UnaryExprNode NegNode ex_a_i"]
  by (simp add: ex_defs simplify_def)

section \<open>Available expressions\<close>


lemma available_simps [simp]:
  "available V (AccessNode t ivs) = (set ivs \<subseteq> V)"
  "available V (UnaryExprNode uop a) = available V a"
  "available V (BinaryExprNode bop a b) = (available V a \<and> available V b)"
  "available V (ImmExprNode v) = True"
  by (simp_all add: available_def)










section \<open>Sub-expression extraction\<close>

lemma accessKept_iff: "accessKept S ivs = (set ivs \<inter> S \<noteq> {})"
  by (induction ivs) auto

lemma references_simps [simp]:
  "references S (AccessNode t ivs) = (set ivs \<inter> S \<noteq> {})"
  "references S (UnaryExprNode uop a) = references S a"
  "references S (BinaryExprNode bop a b) = (references S a \<or> references S b)"
  "references S (ImmExprNode v) = False"
  by (simp_all add: references_def)

text \<open>
  Every call of \<^verbatim>\<open>getSubExpression\<close> finds the field \<^verbatim>\<open>subExpr\<close> undefined and leaves it
  undefined, so both routines satisfy plain recursive equations.
\<close>

lemma getSubExpr_simps:
  "getSubExpr (AccessNode t ivs) vars =
     (if set ivs \<inter> set vars \<noteq> {} then Some (AccessNode t ivs) else None)"
  "getSubExpr (UnaryExprNode uop a) vars =
     (if getSubExpr a vars \<noteq> None then Some (UnaryExprNode uop a) else None)"
  "getSubExpr (BinaryExprNode bop a b) vars =
     binarySubExpr bop (getSubExpr a vars) (getSubExpr b vars)"
  "getSubExpr (ImmExprNode v) vars = None"
  by (simp_all add: getSubExpr_def accessKept_iff)


lemma binarySubExpr_None [simp]: "binarySubExpr bop x y = None \<longleftrightarrow> x = None \<and> y = None"
  by (cases x; cases y) simp_all

lemma getSubExpr_None: "(getSubExpr e vars = None) = (\<not> references (set vars) e)"
  by (induction e) (simp_all add: getSubExpr_simps del: not_None_eq)


lemma getSubExpr_defined: "(\<exists>r. getSubExpr e vars = Some r) = references (set vars) e"
  using getSubExpr_None [of e vars] by auto


lemma getSubExpr_residual: "getSubExpr e vars = Some r \<Longrightarrow> residual (set vars) r"
proof (induction e arbitrary: r)
  case (BinaryExprNode bop a b)
  then show ?case
    by (cases "getSubExpr a vars"; cases "getSubExpr b vars")
       (auto simp: getSubExpr_simps)
next
  case (UnaryExprNode uop a)
  then show ?case
    using getSubExpr_defined [of a vars] by (auto simp: getSubExpr_simps split: if_splits)
qed (auto simp: getSubExpr_simps split: if_splits)

text \<open>
  C1, as amended. For every expression and index-variable list, \<open>getSubExpr\<close> keeps an
  access as it is iff one of its index variables is in the list; keeps a unary node as it
  is, with its operand unpruned, iff the extraction of its operand is defined; turns a
  binary node into a new node of the same kind around the two extractions when both are
  defined, into the defined one when exactly one is, and into the undefined expression
  when neither is; and yields the undefined expression on an immediate. The result is
  defined iff the expression references a variable of the list, and outside its unary
  nodes it contains only accesses that do.
\<close>

theorem getSubExpr_characterisation:
  "getSubExpr (AccessNode t ivs) vars =
     (if set ivs \<inter> set vars \<noteq> {} then Some (AccessNode t ivs) else None)
   \<and> getSubExpr (UnaryExprNode uop a) vars =
       (if getSubExpr a vars \<noteq> None then Some (UnaryExprNode uop a) else None)
   \<and> getSubExpr (BinaryExprNode bop a b) vars =
       (case (getSubExpr a vars, getSubExpr b vars) of
          (Some a', Some b') \<Rightarrow> Some (BinaryExprNode bop a' b')
        | (Some a', None) \<Rightarrow> Some a'
        | (None, Some b') \<Rightarrow> Some b'
        | (None, None) \<Rightarrow> None)
   \<and> getSubExpr (ImmExprNode v) vars = None
   \<and> (\<exists>r. getSubExpr e vars = Some r) = references (set vars) e
   \<and> (\<forall>r. getSubExpr e vars = Some r \<longrightarrow> residual (set vars) r)"
proof (intro conjI allI impI)
  show "getSubExpr (BinaryExprNode bop a b) vars =
       (case (getSubExpr a vars, getSubExpr b vars) of
          (Some a', Some b') \<Rightarrow> Some (BinaryExprNode bop a' b')
        | (Some a', None) \<Rightarrow> Some a'
        | (None, Some b') \<Rightarrow> Some b'
        | (None, None) \<Rightarrow> None)"
    by (cases "getSubExpr a vars"; cases "getSubExpr b vars") (simp_all add: getSubExpr_simps)
qed (simp_all add: getSubExpr_simps getSubExpr_defined getSubExpr_residual)

text \<open>
  The specification's wording fails on \<open>-(a(i) + b(j))\<close> with target \<open>{i}\<close>: the code
  returns the whole negation, \<open>b(j)\<close> included, where the wording gives \<open>-a(i)\<close>.
\<close>

theorem getSubExpr_unary_counterexample:
  "getSubExpr (UnaryExprNode NegNode (BinaryExprNode AddNode ex_a_i ex_b_j)) [0]
     = Some (UnaryExprNode NegNode (BinaryExprNode AddNode ex_a_i ex_b_j))
   \<and> getSubExprSpec (set [0]) (UnaryExprNode NegNode (BinaryExprNode AddNode ex_a_i ex_b_j))
     = Some (UnaryExprNode NegNode ex_a_i)
   \<and> getSubExpr (UnaryExprNode NegNode (BinaryExprNode AddNode ex_a_i ex_b_j)) [0]
     \<noteq> getSubExprSpec (set [0]) (UnaryExprNode NegNode (BinaryExprNode AddNode ex_a_i ex_b_j))"
  by (simp add: getSubExpr_def ex_defs)

theorem getSubExpr_characterisation_witness:
  "getSubExpr (BinaryExprNode AddNode (BinaryExprNode MulNode ex_a_i ex_b_j) ex_c_j) [0]
     = Some ex_a_i
   \<and> residual (set [0]) ex_a_i"
  using getSubExpr_characterisation
    [of 0 "[0]" "[0]" NegNode ex_a_i AddNode ex_b_j "IntImmNode 0"
        "BinaryExprNode AddNode (BinaryExprNode MulNode ex_a_i ex_b_j) ex_c_j"]
  by (simp add: ex_defs getSubExpr_def)

subsection \<open>The old routine and the canonical one\<close>















section \<open>Definition binding\<close>

text \<open>
  C7. Binding a definition that the dimension check rejects fails with the
  dimension-mismatch error and leaves the heap as it was, so a tensor without a
  definition still has none; an assignment or accumulation through an access to a tensor
  that has a definition fails and leaves the heap, and with it the free variables, the
  expression and the accumulate flag of the tensor, as it was.
\<close>

theorem binding_atomic:
  "(\<not> dimensionsTypecheck chk fv e (shape (type (h t))) \<longrightarrow>
      setIndexExpression chk t fv e acc h = (Some ExprDimensionMismatch, h))
   \<and> (indexExpr (h t) = None \<and> \<not> dimensionsTypecheck chk ivs e (shape (type (h t))) \<longrightarrow>
        Access_assign chk t ivs e h = (Some ExprDimensionMismatch, h)
        \<and> Access_accumulate chk t ivs e h = (Some ExprDimensionMismatch, h)
        \<and> indexExpr (snd (Access_assign chk t ivs e h) t) = None
        \<and> indexExpr (snd (Access_accumulate chk t ivs e h) t) = None)
   \<and> (indexExpr (h t) \<noteq> None \<longrightarrow>
        Access_assign chk t ivs e h = (Some CannotReassign, h)
        \<and> Access_accumulate chk t ivs e h = (Some CannotReassign, h))"
  by (simp add: setIndexExpression_def Access_assign_def Access_accumulate_def)

theorem binding_atomic_witness:
  "setIndexExpression ex_checks 0 [0, 1] (Some ex_b_i) False ex_heap
      = (Some ExprDimensionMismatch, ex_heap)
   \<and> Access_assign ex_checks 0 [0, 1] (Some ex_b_i) ex_heap = (Some ExprDimensionMismatch, ex_heap)
   \<and> indexExpr (snd (Access_assign ex_checks 0 [0, 1] (Some ex_b_i) ex_heap) 0) = None
   \<and> Access_assign ex_checks 0 [0] (Some ex_c_i) ex_heap_defined
      = (Some CannotReassign, ex_heap_defined)
   \<and> indexExpr (snd (Access_assign ex_checks 0 [0] (Some ex_c_i) ex_heap_defined) 0) = Some ex_b_i"
  using binding_atomic [of ex_checks "[0, 1]" "Some ex_b_i" ex_heap 0 False "[0, 1]"]
    binding_atomic [of ex_checks "[0]" "Some ex_c_i" ex_heap_defined 0 False "[0]"]
  by (simp add: ex_checks_def ex_heap_def ex_heap_defined_def ex_vector_def)

text \<open>
  C10. \<open>setIndexExpression\<close> has no redefinition check: when the dimension, transposition
  and distribution checks pass it succeeds on any heap, also where the tensor has a
  definition, and stores the new free variables, expression and accumulate flag. The
  assignment operators of an access are what refuses a tensor that has a definition.
\<close>

theorem setIndexExpression_no_redefinition_check:
  "(dimensionsTypecheck chk fv e (shape (type (h t)))
      \<and> \<not> containsTranspose chk (format (h t)) fv e
      \<and> \<not> containsDistribution chk fv e \<longrightarrow>
      setIndexExpression chk t fv e acc h
        = (None, h(t := (h t)\<lparr>freeVars := fv, indexExpr := e, accumulate := acc\<rparr>))
      \<and> freeVars (snd (setIndexExpression chk t fv e acc h) t) = fv
      \<and> indexExpr (snd (setIndexExpression chk t fv e acc h) t) = e
      \<and> accumulate (snd (setIndexExpression chk t fv e acc h) t) = acc)
   \<and> (indexExpr (h t) \<noteq> None \<longrightarrow>
        fst (Access_assign chk t fv e h) = Some CannotReassign
        \<and> fst (Access_accumulate chk t fv e h) = Some CannotReassign)"
  by (simp add: setIndexExpression_def Access_assign_def Access_accumulate_def)

theorem setIndexExpression_no_redefinition_check_witness:
  "indexExpr (ex_heap_defined 0) = Some ex_b_i
   \<and> fst (setIndexExpression ex_checks 0 [1] (Some ex_c_j) True ex_heap_defined) = None
   \<and> freeVars (snd (setIndexExpression ex_checks 0 [1] (Some ex_c_j) True ex_heap_defined) 0) = [1]
   \<and> indexExpr (snd (setIndexExpression ex_checks 0 [1] (Some ex_c_j) True ex_heap_defined) 0)
       = Some ex_c_j
   \<and> accumulate (snd (setIndexExpression ex_checks 0 [1] (Some ex_c_j) True ex_heap_defined) 0)
   \<and> fst (Access_assign ex_checks 0 [1] (Some ex_c_j) ex_heap_defined) = Some CannotReassign"
  using setIndexExpression_no_redefinition_check
    [of ex_checks "[1]" "Some ex_c_j" ex_heap_defined 0 True]
  by (simp add: ex_checks_def ex_heap_defined_def ex_vector_def)

section \<open>Index variable ranges\<close>

lemma map_insert_add: "map_of ps ++ map_insert m v d = map_of ((v, d) # ps) ++ m"
  by (rule ext) (auto simp: map_insert_def map_add_def split: option.splits)

lemma insertRanges_eq:
  "length vs \<le> length ds \<Longrightarrow> insertRanges m vs ds = Inr (map_of (zip vs ds) ++ m)"
proof (induction m vs ds rule: insertRanges.induct)
  case (3 m v vs d ds)
  then have "insertRanges (map_insert m v d) vs ds = Inr (map_of (zip vs ds) ++ map_insert m v d)"
    by simp
  then show ?case
    by (simp only: insertRanges.simps zip_Cons_Cons map_insert_add)
qed simp_all

lemma matchRanges_eq:
  "list_all (\<lambda>acc. length (snd acc) \<le> getOrder h (fst acc)) accs \<Longrightarrow>
     matchRanges h m accs =
       Inr (map_of (concat (map (\<lambda>acc. zip (snd acc) (shape (type (h (fst acc))))) accs)) ++ m)"
proof (induction accs arbitrary: m)
  case Nil
  then show ?case by simp
next
  case (Cons acc accs)
  obtain t ivs where acc: "acc = (t, ivs)" by (cases acc)
  from Cons.prems acc have len: "length ivs \<le> length (shape (type (h t)))"
    and rest: "list_all (\<lambda>acc. length (snd acc) \<le> getOrder h (fst acc)) accs"
    by (simp_all add: getOrder_def)
  show ?case
    by (simp add: acc insertRanges_eq [OF len] Cons.IH [OF rest])
qed

lemma first_occurrence_wins:
  "map_of (xs @ (v, d') # ys) v = (case map_of xs v of Some d \<Rightarrow> Some d | None \<Rightarrow> Some d')"
  by (cases "map_of xs v") (simp_all add: map_add_def)

text \<open>
  C9. For a tensor with a definition whose free variables and accesses stay within the
  orders of their tensors, \<open>getIndexVarRanges\<close> returns, without error, the map that gives
  every index variable the dimension of the first position at which it occurs, the
  free-variable positions first and then the index positions of the accesses in traversal
  order. An insertion of a variable that is present changes nothing, so a later
  occurrence with another dimension neither overwrites the first nor raises an error.
\<close>

theorem getIndexVarRanges_first_wins:
  "(indexExpr (h tensor) = Some e \<and> arityWithinOrder h tensor e \<longrightarrow>
      getIndexVarRanges h tensor = Inr (map_of (occurrences h tensor e)))
   \<and> (m v = Some d \<longrightarrow> map_insert m v d' = m)
   \<and> (m v = None \<longrightarrow> map_insert m v d' = m(v \<mapsto> d'))
   \<and> map_of (xs @ (v, d') # ys) v = (case map_of xs v of Some d \<Rightarrow> Some d | None \<Rightarrow> Some d')"
proof (intro conjI impI)
  assume h: "indexExpr (h tensor) = Some e \<and> arityWithinOrder h tensor e"
  then have len: "length (freeVars (h tensor)) \<le> length (shape (type (h tensor)))"
    and accs: "list_all (\<lambda>acc. length (snd acc) \<le> getOrder h (fst acc)) (accessNodes e)"
    by (simp_all add: arityWithinOrder_def getOrder_def)
  show "getIndexVarRanges h tensor = Inr (map_of (occurrences h tensor e))"
    using h by (simp add: getIndexVarRanges_def insertRanges_eq [OF len] matchRanges_eq [OF accs]
        occurrences_def)
next
  show "map_of (xs @ (v, d') # ys) v = (case map_of xs v of Some d \<Rightarrow> Some d | None \<Rightarrow> Some d')"
    by (rule first_occurrence_wins)
qed (simp_all add: map_insert_def)

theorem getIndexVarRanges_first_wins_witness:
  "indexExpr (ex_heap_ranges 0) = Some ex_b_i
   \<and> arityWithinOrder ex_heap_ranges 0 ex_b_i
   \<and> occurrences ex_heap_ranges 0 ex_b_i = [(0, Fixed 3), (0, Fixed 5)]
   \<and> getIndexVarRanges ex_heap_ranges 0 = Inr [0 \<mapsto> Fixed 3]
   \<and> map_insert [0 \<mapsto> Fixed 3] 0 (Fixed 5) = [0 \<mapsto> Fixed 3]
   \<and> map_insert Map.empty 0 (Fixed 5) = [0 \<mapsto> Fixed 5]"
  using getIndexVarRanges_first_wins
    [of ex_heap_ranges 0 ex_b_i "[0 \<mapsto> Fixed 3]" 0 "Fixed 3" "Fixed 5" "[]" "[]"]
    getIndexVarRanges_first_wins
    [of ex_heap_ranges 0 ex_b_i Map.empty 0 "Fixed 3" "Fixed 5" "[]" "[]"]
  by (simp add: ex_heap_ranges_def ex_vector_def ex_defs arityWithinOrder_def occurrences_def
      getOrder_def)

section \<open>Scalar lowering\<close>

lemma lower_all_temporaries:
  "list_all (\<lambda>acc. temporaries (fst acc) \<noteq> None) (accessNodes e) \<Longrightarrow>
     \<exists>v. lower h its g temporaries e = Inr v \<and> lower h its' g' temporaries e = Inr v"
proof (induction e)
  case (AccessNode t ivs)
  then show ?case by (auto simp: lowerAccess_def)
next
  case (UnaryExprNode uop a)
  then obtain v where "lower h its g temporaries a = Inr v" "lower h its' g' temporaries a = Inr v"
    by auto
  then show ?case by simp
next
  case (BinaryExprNode bop a b)
  then obtain va vb where "lower h its g temporaries a = Inr va"
      "lower h its' g' temporaries a = Inr va"
      "lower h its g temporaries b = Inr vb" "lower h its' g' temporaries b = Inr vb"
    by auto
  then show ?case by simp
next
  case (ImmExprNode v)
  show ?case by simp
qed

text \<open>
  C8. An access to a tensor that is in the temporaries map is lowered to the value stored
  for it, whatever the iterator table and the iteration graph are, also when they resolve
  nothing. An access to a tensor that is not in the map is lowered to a load from the
  values of the tensor of an iterator at the position variable of that iterator: the root
  iterator of the tensor path when the tensor has order zero, else the iterator at the
  last step of the path. This holds for the accesses at every depth of an index
  expression: a unary or binary node lowers to the matching operator over its lowered
  operands and an immediate to its literal, and an expression whose accesses are all to
  temporaries is lowered to the same value under every pair of tables.
\<close>

theorem lower_access:
  "(temporaries t = Some v \<longrightarrow>
      lowerToScalarExpression h (AccessNode t ivs) iterators iterationGraph temporaries = Inr v
      \<and> lowerToScalarExpression h (AccessNode t ivs)
          \<lparr>getRoot = Map.empty, atStep = Map.empty\<rparr>
          \<lparr>getTensorPath = Map.empty, getLastStep = Map.empty\<rparr> temporaries = Inr v)
   \<and> (temporaries t = None
        \<and> getTensorPath iterationGraph (AccessNode t ivs) = Some path
        \<and> getOrder h t = 0
        \<and> getRoot iterators path = Some iterator \<longrightarrow>
      lowerToScalarExpression h (AccessNode t ivs) iterators iterationGraph temporaries
        = Inr (ir_Load (ir_GetProperty (getTensor iterator) Values) (getPtrVar iterator)))
   \<and> (temporaries t = None
        \<and> getTensorPath iterationGraph (AccessNode t ivs) = Some path
        \<and> getOrder h t \<noteq> 0
        \<and> getLastStep iterationGraph path = Some st
        \<and> atStep iterators st = Some iterator \<longrightarrow>
      lowerToScalarExpression h (AccessNode t ivs) iterators iterationGraph temporaries
        = Inr (ir_Load (ir_GetProperty (getTensor iterator) Values) (getPtrVar iterator)))
   \<and> lowerToScalarExpression h (UnaryExprNode uop a) iterators iterationGraph temporaries =
       (case lowerToScalarExpression h a iterators iterationGraph temporaries of
          Inl err \<Rightarrow> Inl err
        | Inr a' \<Rightarrow> Inr (case uop of NegNode \<Rightarrow> ir_Neg a' | SqrtNode \<Rightarrow> ir_Sqrt a'))
   \<and> lowerToScalarExpression h (BinaryExprNode bop a b) iterators iterationGraph temporaries =
       (case lowerToScalarExpression h a iterators iterationGraph temporaries of
          Inl err \<Rightarrow> Inl err
        | Inr a' \<Rightarrow>
            (case lowerToScalarExpression h b iterators iterationGraph temporaries of
               Inl err \<Rightarrow> Inl err
             | Inr b' \<Rightarrow>
                 Inr (case bop of
                        AddNode \<Rightarrow> ir_Add a' b'
                      | SubNode \<Rightarrow> ir_Sub a' b'
                      | MulNode \<Rightarrow> ir_Mul a' b'
                      | DivNode \<Rightarrow> ir_Div a' b')))
   \<and> lowerToScalarExpression h (ImmExprNode imm) iterators iterationGraph temporaries
       = Inr (ir_Literal imm)
   \<and> (list_all (\<lambda>acc. temporaries (fst acc) \<noteq> None) (accessNodes e) \<longrightarrow>
        (\<exists>w. lowerToScalarExpression h e iterators iterationGraph temporaries = Inr w
           \<and> lowerToScalarExpression h e iterators' iterationGraph' temporaries = Inr w
           \<and> lowerToScalarExpression h e
               \<lparr>getRoot = Map.empty, atStep = Map.empty\<rparr>
               \<lparr>getTensorPath = Map.empty, getLastStep = Map.empty\<rparr> temporaries = Inr w))"
proof -
  have all: "list_all (\<lambda>acc. temporaries (fst acc) \<noteq> None) (accessNodes e) \<longrightarrow>
        (\<exists>w. lowerToScalarExpression h e iterators iterationGraph temporaries = Inr w
           \<and> lowerToScalarExpression h e iterators' iterationGraph' temporaries = Inr w
           \<and> lowerToScalarExpression h e
               \<lparr>getRoot = Map.empty, atStep = Map.empty\<rparr>
               \<lparr>getTensorPath = Map.empty, getLastStep = Map.empty\<rparr> temporaries = Inr w)"
  proof
    assume h: "list_all (\<lambda>acc. temporaries (fst acc) \<noteq> None) (accessNodes e)"
    from lower_all_temporaries [OF h, of h iterators iterationGraph iterators' iterationGraph']
    obtain w where w: "lower h iterators iterationGraph temporaries e = Inr w"
      "lower h iterators' iterationGraph' temporaries e = Inr w" by blast
    from lower_all_temporaries [OF h, of h iterators iterationGraph
        "\<lparr>getRoot = Map.empty, atStep = Map.empty\<rparr>"
        "\<lparr>getTensorPath = Map.empty, getLastStep = Map.empty\<rparr>"] w(1)
    have "lower h \<lparr>getRoot = Map.empty, atStep = Map.empty\<rparr>
        \<lparr>getTensorPath = Map.empty, getLastStep = Map.empty\<rparr> temporaries e = Inr w"
      by auto
    with w show "\<exists>w. lowerToScalarExpression h e iterators iterationGraph temporaries = Inr w
           \<and> lowerToScalarExpression h e iterators' iterationGraph' temporaries = Inr w
           \<and> lowerToScalarExpression h e
               \<lparr>getRoot = Map.empty, atStep = Map.empty\<rparr>
               \<lparr>getTensorPath = Map.empty, getLastStep = Map.empty\<rparr> temporaries = Inr w"
      by (simp add: lowerToScalarExpression_def)
  qed
  note all' = all [unfolded lowerToScalarExpression_def]
  show ?thesis
    unfolding lowerToScalarExpression_def
    by (intro conjI all') (simp_all add: lowerAccess_def)
qed

theorem lower_access_witness:
  "lowerToScalarExpression ex_heap ex_a_i ex_iterators ex_graph [0 \<mapsto> ir_Var ''t0'']
     = Inr (ir_Var ''t0'')
   \<and> lowerToScalarExpression ex_heap ex_a_i ex_iterators ex_graph Map.empty
       = Inr (ir_Load (ir_GetProperty (ir_Var ''A'') Values) (ir_Var ''pA1''))
   \<and> lowerToScalarExpression ex_heap_scalar ex_s ex_iterators_root ex_graph_scalar Map.empty
       = Inr (ir_Load (ir_GetProperty (ir_Var ''A'') Values) (ir_Var ''pA1''))
   \<and> list_all (\<lambda>acc. [0 \<mapsto> ir_Var ''t0''] (fst acc) \<noteq> None)
         (accessNodes (BinaryExprNode MulNode (UnaryExprNode NegNode ex_a_i) ex_a_i))
   \<and> lowerToScalarExpression ex_heap
         (BinaryExprNode MulNode (UnaryExprNode NegNode ex_a_i) ex_a_i)
         ex_iterators_root ex_graph_scalar [0 \<mapsto> ir_Var ''t0'']
       = Inr (ir_Mul (ir_Neg (ir_Var ''t0'')) (ir_Var ''t0''))"
  using lower_access [of "[0 \<mapsto> ir_Var ''t0'']" 0 "ir_Var ''t0''" ex_heap "[0]" ex_iterators
      ex_graph 7 ex_iterator 0 NegNode ex_a_i MulNode ex_a_i "IntImmNode 0"
      "BinaryExprNode MulNode (UnaryExprNode NegNode ex_a_i) ex_a_i" ex_iterators_root
      ex_graph_scalar]
    lower_access [of Map.empty 0 "ir_Var ''t0''" ex_heap "[0]" ex_iterators ex_graph 7
      ex_iterator 0 NegNode ex_a_i MulNode ex_a_i "IntImmNode 0" "ImmExprNode (IntImmNode 0)"
      ex_iterators ex_graph]
    lower_access [of Map.empty 0 "ir_Var ''t0''" ex_heap_scalar "[]" ex_iterators_root
      ex_graph_scalar 7 ex_iterator 0 NegNode ex_a_i MulNode ex_a_i "IntImmNode 0"
      "ImmExprNode (IntImmNode 0)" ex_iterators ex_graph]
  by (simp add: ex_heap_def ex_heap_scalar_def ex_vector_def ex_iterators_def ex_iterators_root_def
      ex_graph_def ex_graph_scalar_def ex_iterator_def ex_defs ex_s_def getOrder_def
      lowerToScalarExpression_def lowerAccess_def)

end
